theory Spec2Isabelle
  imports Main "HOL-Library.Char_ord" "HOL-Library.List_Lexorder" "HOL-Library.AList"
begin

section \<open>Strings\<close>

text \<open>
  A Python \<open>str\<close> is a sequence of Unicode code points. The model is \<open>string\<close>, a
  list of \<open>char\<close>; a \<open>char\<close> stands for the code point with the same number
  (0 to 255). Code points from 256 on are outside the model. The character classes
  below are those of CPython on this range: \<open>str.isspace\<close> holds of 9 to 13,
  28 to 32, 133 and 160, and \<open>str.lower\<close> moves A to Z and the accented capitals
  192 to 222 (215, the multiplication sign, apart) up by 32.
\<close>

definition code_point :: "char \<Rightarrow> nat" where
  "code_point c = of_char c"

definition py_isspace :: "char \<Rightarrow> bool" where
  "py_isspace c =
     (let n = code_point c
      in (9 \<le> n \<and> n \<le> 13) \<or> (28 \<le> n \<and> n \<le> 32) \<or> n = 133 \<or> n = 160)"

definition is_upper :: "char \<Rightarrow> bool" where
  "is_upper c =
     (let n = code_point c
      in (65 \<le> n \<and> n \<le> 90) \<or> (192 \<le> n \<and> n \<le> 222 \<and> n \<noteq> 215))"

definition lower_char :: "char \<Rightarrow> char" where
  "lower_char c = (if is_upper c then char_of (code_point c + 32) else c)"

text \<open>\<^verbatim>\<open>s.strip()\<close>: whitespace is dropped from both ends.\<close>

definition py_strip :: "string \<Rightarrow> string" where
  "py_strip s = rev (dropWhile py_isspace (rev (dropWhile py_isspace s)))"

text \<open>\<^verbatim>\<open>s.lower()\<close>.\<close>

definition py_lower :: "string \<Rightarrow> string" where
  "py_lower s = map lower_char s"

text \<open>\<^verbatim>\<open>s.replace(a, b)\<close> for one-character \<open>a\<close> and \<open>b\<close>.\<close>

definition replace_char :: "char \<Rightarrow> char \<Rightarrow> string \<Rightarrow> string" where
  "replace_char a b s = map (\<lambda>c. if c = a then b else c) s"

section \<open>The key normalizer\<close>

text \<open>
  \<^verbatim>\<open>
  def normalize_key(raw: str) -> str:
      return raw.strip().lower().replace("-", "_").replace(" ", "_")
  \<close>
\<close>

definition normalize_key :: "string \<Rightarrow> string" where
  "normalize_key raw =
     replace_char (CHR '' '') (CHR ''_'')
       (replace_char (CHR ''-'') (CHR ''_'') (py_lower (py_strip raw)))"

section \<open>JSON values as Python objects\<close>

text \<open>
  What \<^verbatim>\<open>json.load\<close> and Flask's \<^verbatim>\<open>get_json\<close> hand to the program: \<open>None\<close>,
  a \<open>bool\<close>, an \<open>int\<close>, a \<open>str\<close>, a \<open>list\<close> or a \<open>dict\<close> with string keys.
  A \<open>dict\<close> is the list of its items in insertion order, and a lookup reads the first
  item with the key. Numbers with a fraction or an exponent (Python floats) are left out
  of the model.
\<close>

datatype json =
    JNull
  | JBool bool
  | JInt int
  | JStr string
  | JArr "json list"
  | JObj "(string \<times> json) list"

type_synonym pydict = "(string \<times> json) list"

text \<open>Truth value of an object, as \<^verbatim>\<open>if x:\<close>, \<^verbatim>\<open>not x\<close> and \<^verbatim>\<open>x or y\<close> test it.\<close>

fun truthy :: "json \<Rightarrow> bool" where
  "truthy JNull = False"
| "truthy (JBool b) = b"
| "truthy (JInt n) = (n \<noteq> 0)"
| "truthy (JStr s) = (s \<noteq> [])"
| "truthy (JArr xs) = (xs \<noteq> [])"
| "truthy (JObj d) = (d \<noteq> [])"

text \<open>\<^verbatim>\<open>d.get(k, default)\<close> on a \<open>dict\<close>.\<close>

definition dict_get :: "pydict \<Rightarrow> string \<Rightarrow> json \<Rightarrow> json" where
  "dict_get d k dflt = (case map_of d k of None \<Rightarrow> dflt | Some v \<Rightarrow> v)"

text \<open>\<^verbatim>\<open>sep.join(xs)\<close>.\<close>

fun py_join :: "string \<Rightarrow> string list \<Rightarrow> string" where
  "py_join sep [] = []"
| "py_join sep [x] = x"
| "py_join sep (x # y # ys) = x @ sep @ py_join sep (y # ys)"

text \<open>Decimal digits of a natural number, and \<^verbatim>\<open>str(n)\<close> of an \<open>int\<close>.\<close>

definition digit_char :: "nat \<Rightarrow> char" where
  "digit_char d = char_of (48 + d)"

fun nat_digits :: "nat \<Rightarrow> string" where
  "nat_digits n = (if n < 10 then [digit_char n] else nat_digits (n div 10) @ [digit_char (n mod 10)])"

definition int_str :: "int \<Rightarrow> string" where
  "int_str i = (if i < 0 then CHR ''-'' # nat_digits (nat (- i)) else nat_digits (nat i))"

text \<open>
  \<^verbatim>\<open>repr(s)\<close> of a \<open>str\<close>: in double quotes when \<open>s\<close> holds a single quote and no
  double quote, in single quotes otherwise; the quote and the backslash are escaped with
  a backslash, tab, newline and carriage return are written \<^verbatim>\<open>\t\<close>, \<^verbatim>\<open>\n\<close>, \<^verbatim>\<open>\r\<close>, and
  every other unprintable code point (below 32, 127 to 160, 173) as \<^verbatim>\<open>\xhh\<close>.
\<close>

definition hex_digit :: "nat \<Rightarrow> char" where
  "hex_digit d = (if d < 10 then char_of (48 + d) else char_of (87 + d))"

definition repr_char :: "char \<Rightarrow> char \<Rightarrow> string" where
  "repr_char quote c =
     (let n = code_point c in
      if c = quote \<or> c = CHR 0x5C then [CHR 0x5C, c]
      else if c = CHR 0x09 then [CHR 0x5C, CHR ''t'']
      else if c = CHR 0x0A then [CHR 0x5C, CHR ''n'']
      else if c = CHR 0x0D then [CHR 0x5C, CHR ''r'']
      else if n < 32 \<or> (127 \<le> n \<and> n \<le> 160) \<or> n = 173
        then [CHR 0x5C, CHR ''x'', hex_digit (n div 16), hex_digit (n mod 16)]
      else [c])"

definition repr_str :: "string \<Rightarrow> string" where
  "repr_str s =
     (let quote = (if CHR 0x27 \<in> set s \<and> CHR 0x22 \<notin> set s then CHR 0x22 else CHR 0x27)
      in quote # concat (map (repr_char quote) s) @ [quote])"

text \<open>\<^verbatim>\<open>repr(x)\<close> and \<^verbatim>\<open>str(x)\<close>: they differ on a \<open>str\<close> only.\<close>

fun py_repr :: "json \<Rightarrow> string" where
  "py_repr JNull = ''None''"
| "py_repr (JBool b) = (if b then ''True'' else ''False'')"
| "py_repr (JInt n) = int_str n"
| "py_repr (JStr s) = repr_str s"
| "py_repr (JArr xs) = ''['' @ py_join '', '' (map py_repr xs) @ '']''"
| "py_repr (JObj d) =
     ''{'' @ py_join '', '' (map (\<lambda>(k, v). repr_str k @ '': '' @ py_repr v) d) @ ''}''"

definition py_str :: "json \<Rightarrow> string" where
  "py_str x = (case x of JStr s \<Rightarrow> s | _ \<Rightarrow> py_repr x)"

section \<open>Loading and indexing the data source\<close>

text \<open>
  The exceptions the program can leave a function with. \<open>JSONDecodeError\<close> is what
  \<^verbatim>\<open>json.load\<close> raises on text that is not JSON (in Python a subclass of
  \<open>ValueError\<close>); \<open>AttributeError\<close> is what \<^verbatim>\<open>x.get\<close> raises on an object that
  is not a \<open>dict\<close>.
\<close>

datatype error =
    FileNotFoundError string
  | ValueError string
  | JSONDecodeError
  | AttributeError

text \<open>
  The file system as the loader sees it: at a path there is nothing, a file whose text is
  not JSON, or a file holding a JSON document.
\<close>

datatype data_file = Absent | Malformed | Document json

text \<open>
  \<^verbatim>\<open>
  def load_sections(path):
      if not os.path.exists(path):
          raise FileNotFoundError(f"DATA_PATH not found: {path}")
      with open(path, "r", encoding="utf-8") as f:
          data = json.load(f)
          if not isinstance(data, list):
              raise ValueError("Top-level JSON must be a list of section objects.")
          return data
  \<close>
\<close>

definition load_sections :: "(string \<Rightarrow> data_file) \<Rightarrow> string \<Rightarrow> error + json list" where
  "load_sections fs path =
     (case fs path of
        Absent \<Rightarrow> Inl (FileNotFoundError (''DATA_PATH not found: '' @ path))
      | Malformed \<Rightarrow> Inl JSONDecodeError
      | Document data \<Rightarrow>
          (case data of
             JArr xs \<Rightarrow> Inr xs
           | _ \<Rightarrow> Inl (ValueError ''Top-level JSON must be a list of section objects.'')))"

text \<open>
  \<^verbatim>\<open>
  def index_by_section(sections):
      out = {}
      for entry in sections:
          name = str(entry.get("section", "")).strip()
          if name:
              out[name.lower()] = entry
      return out
  \<close>
  The loop is \<open>index_loop\<close>, with \<open>out\<close> as its accumulator. \<^verbatim>\<open>out[k] = entry\<close>
  replaces the value of a key that is there and appends a new key at the end, which is
  \<open>AList.update\<close>. An entry that is not a \<open>dict\<close> has no \<open>get\<close>.
\<close>

fun index_loop :: "(string \<times> pydict) list \<Rightarrow> json list \<Rightarrow> error + (string \<times> pydict) list" where
  "index_loop out [] = Inr out"
| "index_loop out (entry # rest) =
     (case entry of
        JObj d \<Rightarrow>
          (let name = py_strip (py_str (dict_get d ''section'' (JStr [])))
           in if name \<noteq> [] then index_loop (AList.update (py_lower name) d out) rest
              else index_loop out rest)
      | _ \<Rightarrow> Inl AttributeError)"

definition index_by_section :: "json list \<Rightarrow> error + (string \<times> pydict) list" where
  "index_by_section sections = index_loop [] sections"

section \<open>Module state\<close>

text \<open>
  The module's globals once it is imported. \<open>DEFAULT_SECTION\<close> and
  \<open>DEFAULT_GREETING\<close> are read from the environment (the first is
  \<^verbatim>\<open>"overview_core"\<close> when the variable is unset), \<open>OPENAI_MODEL\<close> is the
  environment variable of that name, read at each call, and \<open>client\<close> is the provider's
  client, \<open>None\<close> without an API key.

  The provider is outside the program. A client is any function from the request to
  what comes back inside the \<^verbatim>\<open>try\<close> block: \<open>Raises\<close> when the call, or reading
  \<^verbatim>\<open>resp.choices[0].message.content\<close> from its response, raises an \<open>Exception\<close>, and
  \<open>Content c\<close> with the content of the first choice otherwise, which may be \<open>None\<close>.
\<close>

record chat_request =
  model :: string
  messages :: "(string \<times> string) list"
  temperature :: int
  max_tokens :: nat

datatype completion = Raises | Content "string option"

type_synonym provider = "chat_request \<Rightarrow> completion"

record globals =
  DEFAULT_SECTION :: string
  DEFAULT_GREETING :: string
  OPENAI_MODEL :: "string option"
  client :: "provider option"
  SECTIONS_BY_NAME :: "(string \<times> pydict) list"
  SECTION_KEYS :: "string list"

text \<open>
  \<^verbatim>\<open>
  SECTIONS_RAW = load_sections(DATA_PATH)
  SECTIONS_BY_NAME = index_by_section(SECTIONS_RAW)
  SECTION_KEYS = sorted(SECTIONS_BY_NAME.keys())
  \<close>
  \<open>startup\<close> runs these three lines on top of the configuration \<open>g\<close>; an exception
  in one of them ends the import.
\<close>

definition startup :: "(string \<Rightarrow> data_file) \<Rightarrow> string \<Rightarrow> globals \<Rightarrow> error + globals" where
  "startup fs data_path g =
     (case load_sections fs data_path of
        Inl e \<Rightarrow> Inl e
      | Inr raw \<Rightarrow>
          (case index_by_section raw of
             Inl e \<Rightarrow> Inl e
           | Inr idx \<Rightarrow> Inr (g\<lparr>SECTIONS_BY_NAME := idx, SECTION_KEYS := sort (map fst idx)\<rparr>)))"

section \<open>The payload formatter\<close>

text \<open>
  \<^verbatim>\<open>
  def format_payload(section_name):
      section_key = normalize_key(section_name)
      section = SECTIONS_BY_NAME.get(section_key)
      if not section:
          return {"ok": False, "error": f"Section '{section_name}' not found.",
                  "available_sections": SECTION_KEYS}
      return {"ok": True, "section": section.get("section"),
              "period": section.get("period"), "metrics": section.get("metrics", {})}
  \<close>
  \<^verbatim>\<open>not section\<close> holds of \<open>None\<close> and of the empty \<open>dict\<close>.
\<close>

definition key_list :: "string list \<Rightarrow> json" where
  "key_list ks = JArr (map JStr ks)"

definition not_found_payload :: "globals \<Rightarrow> string \<Rightarrow> pydict" where
  "not_found_payload g section_name =
     [(''ok'', JBool False),
      (''error'', JStr (''Section '' @ [CHR 0x27] @ section_name @ [CHR 0x27] @ '' not found.'')),
      (''available_sections'', key_list (SECTION_KEYS g))]"

definition found_payload :: "pydict \<Rightarrow> pydict" where
  "found_payload section =
     [(''ok'', JBool True),
      (''section'', dict_get section ''section'' JNull),
      (''period'', dict_get section ''period'' JNull),
      (''metrics'', dict_get section ''metrics'' (JObj []))]"

definition format_payload :: "globals \<Rightarrow> string \<Rightarrow> pydict" where
  "format_payload g section_name =
     (let section_key = normalize_key section_name
      in case map_of (SECTIONS_BY_NAME g) section_key of
           None \<Rightarrow> not_found_payload g section_name
         | Some section \<Rightarrow>
             if section = [] then not_found_payload g section_name
             else found_payload section)"

section \<open>The free-text resolver\<close>

text \<open>
  \<^verbatim>\<open>
  def choose_section_with_llm(query, candidate_keys):
      if not client:
          return None
      brief_help = {...}
      candidates_text = "\n".join([f"- {k}: {brief_help.get(k, 'No desc')}" for k in candidate_keys])
      system = (...)
      user = (...)
      try:
          resp = client.chat.completions.create(
              model=os.getenv("OPENAI_MODEL", "gpt-4o-mini"),
              messages=[{"role": "system", "content": system}, {"role": "user", "content": user}],
              temperature=0.0, max_tokens=10)
          text = (resp.choices[0].message.content or "").strip().lower()
          text_norm = normalize_key(text)
          return text_norm if text_norm in candidate_keys else None
      except Exception:
          return None
  \<close>
\<close>

definition brief_help :: "(string \<times> string) list" where
  "brief_help =
     [(''overview_core'', ''Overall KPIs across the program''),
      (''human_engagement_trends'', ''Human feedback, escalations, reviews''),
      (''agent_learning_progress'', ''Learning, models improving, training velocity''),
      (''operations_impact'', ''Ops metrics and efficiency''),
      (''roi_quarter'', ''Return on investment (quarterly)''),
      (''roi_annual'', ''Return on investment (annual)''),
      (''sales_impact'', ''Sales impact, revenue, pipeline, conversions'')]"

definition candidate_line :: "string \<Rightarrow> string" where
  "candidate_line k =
     ''- '' @ k @ '': '' @ (case map_of brief_help k of None \<Rightarrow> ''No desc'' | Some h \<Rightarrow> h)"

definition system_prompt :: string where
  "system_prompt =
     ''You select exactly one canonical section key from a fixed list. '' @
     ''Return ONLY the key, nothing else. If unsure, pick the closest.''"

definition user_prompt :: "string \<Rightarrow> string list \<Rightarrow> string" where
  "user_prompt query candidate_keys =
     ''User question/label: '' @ query @ [CHR 0x0A, CHR 0x0A] @
     ''Choose one of these keys that best matches the user'' @ [CHR 0x27] @ ''s intent:'' @
     [CHR 0x0A] @ py_join [CHR 0x0A] (map candidate_line candidate_keys) @ [CHR 0x0A, CHR 0x0A] @
     ''Return ONLY the key.''"

definition build_request :: "globals \<Rightarrow> string \<Rightarrow> string list \<Rightarrow> chat_request" where
  "build_request g query candidate_keys =
     \<lparr>model = (case OPENAI_MODEL g of None \<Rightarrow> ''gpt-4o-mini'' | Some m \<Rightarrow> m),
      messages = [(''system'', system_prompt), (''user'', user_prompt query candidate_keys)],
      temperature = 0,
      max_tokens = 10\<rparr>"

definition choose_section_with_llm :: "globals \<Rightarrow> string \<Rightarrow> string list \<Rightarrow> string option" where
  "choose_section_with_llm g query candidate_keys =
     (case client g of
        None \<Rightarrow> None
      | Some create \<Rightarrow>
          (case create (build_request g query candidate_keys) of
             Raises \<Rightarrow> None
           | Content c \<Rightarrow>
               (let text = py_lower (py_strip (case c of None \<Rightarrow> [] | Some t \<Rightarrow> t));
                    text_norm = normalize_key text
                in if text_norm \<in> set candidate_keys then Some text_norm else None)))"

section \<open>Request handlers\<close>

text \<open>
  A response is the \<open>dict\<close> given to \<^verbatim>\<open>jsonify\<close> and the status code. A query
  parameter is \<open>None\<close> when the request does not carry it; \<^verbatim>\<open>if section:\<close> and
  \<^verbatim>\<open>not chosen\<close> take \<open>None\<close> and the empty string alike.
\<close>

type_synonym response = "pydict \<times> nat"

definition str_truthy :: "string option \<Rightarrow> bool" where
  "str_truthy x = (case x of None \<Rightarrow> False | Some s \<Rightarrow> s \<noteq> [])"

text \<open>The string behind an optional string that passed the truth test.\<close>

definition str_value :: "string option \<Rightarrow> string" where
  "str_value x = (case x of None \<Rightarrow> [] | Some s \<Rightarrow> s)"

definition payload_ok :: "pydict \<Rightarrow> bool" where
  "payload_ok payload = truthy (dict_get payload ''ok'' JNull)"

text \<open>
  \<^verbatim>\<open>
  def get_metrics_query():
      section = request.args.get("section")
      q = request.args.get("q")
      if section:
          payload = format_payload(section)
          return (jsonify(payload), 200) if payload.get("ok") else (jsonify(payload), 404)
      if q:
          chosen = choose_section_with_llm(q, SECTION_KEYS)
          if not chosen:
              return jsonify({"ok": False, "error": "Could not infer a section from your query.",
                              "available_sections": SECTION_KEYS,
                              "hint": "Try specifying ?section=<one of the keys>."}), 400
          payload = format_payload(chosen)
          return jsonify(payload), 200
      return jsonify({"ok": False, "error": "Provide either ?section=<key> or ?q=<free-text>",
                      "available_sections": SECTION_KEYS}), 400
  \<close>
\<close>

definition get_metrics_query :: "globals \<Rightarrow> string option \<Rightarrow> string option \<Rightarrow> response" where
  "get_metrics_query g section q =
     (if str_truthy section then
        (let payload = format_payload g (str_value section)
         in if payload_ok payload then (payload, 200) else (payload, 404))
      else if str_truthy q then
        (let chosen = choose_section_with_llm g (str_value q) (SECTION_KEYS g)
         in if \<not> str_truthy chosen then
              ([(''ok'', JBool False),
                (''error'', JStr ''Could not infer a section from your query.''),
                (''available_sections'', key_list (SECTION_KEYS g)),
                (''hint'', JStr ''Try specifying ?section=<one of the keys>.'')], 400)
            else (format_payload g (str_value chosen), 200))
      else
        ([(''ok'', JBool False),
          (''error'', JStr ''Provide either ?section=<key> or ?q=<free-text>''),
          (''available_sections'', key_list (SECTION_KEYS g))], 400))"

text \<open>
  \<^verbatim>\<open>
  def get_metrics_path(section_name):
      payload = format_payload(section_name)
      return (jsonify(payload), 200) if payload.get("ok") else (jsonify(payload), 404)
  \<close>
\<close>

definition get_metrics_path :: "globals \<Rightarrow> string \<Rightarrow> response" where
  "get_metrics_path g section_name =
     (let payload = format_payload g section_name
      in if payload_ok payload then (payload, 200) else (payload, 404))"

text \<open>
  \<^verbatim>\<open>
  def ask_llm_router():
      data = (request.get_json(silent=True) or {})
      q = str(data.get("q", "")).strip()
      if not q:
          return jsonify({"ok": False, "error": "Missing 'q' in JSON body."}), 400
      chosen = choose_section_with_llm(q, SECTION_KEYS)
      if not chosen:
          return jsonify({"ok": False, "error": "Could not infer a section from your query.",
                          "available_sections": SECTION_KEYS}), 400
      payload = format_payload(chosen)
      msg = DEFAULT_GREETING if chosen == "overview_core" else None
      return jsonify({ **({"message": msg} if msg else {}), **payload }), 200
  \<close>
  \<^verbatim>\<open>get_json(silent=True)\<close> gives the parsed body, or \<open>None\<close> when the body is not
  JSON. \<^verbatim>\<open>{**a, **b}\<close> starts from the items of \<open>a\<close> and stores those of \<open>b\<close> in
  order.
\<close>

definition dict_merge :: "pydict \<Rightarrow> pydict \<Rightarrow> pydict" where
  "dict_merge a b = foldl (\<lambda>acc (k, v). AList.update k v acc) a b"

definition missing_q_response :: response where
  "missing_q_response =
     ([(''ok'', JBool False),
       (''error'', JStr (''Missing '' @ [CHR 0x27] @ ''q'' @ [CHR 0x27] @ '' in JSON body.''))], 400)"

definition ask_llm_router :: "globals \<Rightarrow> json option \<Rightarrow> error + response" where
  "ask_llm_router g body =
     (let data = (case body of None \<Rightarrow> JObj [] | Some b \<Rightarrow> if truthy b then b else JObj [])
      in case data of
           JObj d \<Rightarrow>
             (let q = py_strip (py_str (dict_get d ''q'' (JStr [])))
              in if q = [] then Inr missing_q_response
                 else
                   (let chosen = choose_section_with_llm g q (SECTION_KEYS g)
                    in if \<not> str_truthy chosen then
                         Inr ([(''ok'', JBool False),
                               (''error'', JStr ''Could not infer a section from your query.''),
                               (''available_sections'', key_list (SECTION_KEYS g))], 400)
                       else
                         (let payload = format_payload g (str_value chosen);
                              msg = (if str_value chosen = ''overview_core'' then Some (DEFAULT_GREETING g) else None)
                          in Inr (dict_merge
                                    (if str_truthy msg then [(''message'', JStr (str_value msg))] else [])
                                    payload, 200))))
         | _ \<Rightarrow> Inl AttributeError)"

section \<open>Auxiliary notions and sample data\<close>

text \<open>What \<open>normalize_key\<close> does to one character of the stripped string.\<close>

definition norm_char :: "char \<Rightarrow> char" where
  "norm_char c =
     (let l = lower_char c in if l = CHR ''-'' \<or> l = CHR '' '' then CHR ''_'' else l)"

text \<open>
  The relation between a key of the index and the record stored under it: the key is not
  empty, and it is the stripped, lowercased \<^verbatim>\<open>str\<close> of the record's \<open>section\<close>.
\<close>

definition indexed :: "string \<times> pydict \<Rightarrow> bool" where
  "indexed kd =
     (fst kd \<noteq> [] \<and>
      fst kd = py_lower (py_strip (py_str (dict_get (snd kd) ''section'' (JStr [])))))"

text \<open>\<^verbatim>\<open>isinstance(x, dict)\<close>.\<close>

fun is_dict :: "json \<Rightarrow> bool" where
  "is_dict (JObj d) = True"
| "is_dict _ = False"

text \<open>
  A data source with the one record
  \<^verbatim>\<open>{"section": "Overview Core", "period": "Q1", "metrics": {"x": 1}}\<close>,
  and one with two records whose names are already keys.
\<close>

definition scenario_record :: pydict where
  "scenario_record =
     [(''section'', JStr ''Overview Core''), (''period'', JStr ''Q1''),
      (''metrics'', JObj [(''x'', JInt 1)])]"

definition scenario_fs :: "string \<Rightarrow> data_file" where
  "scenario_fs path = Document (JArr [JObj scenario_record])"

definition overview_record :: pydict where
  "overview_record =
     [(''section'', JStr ''overview_core''), (''period'', JStr ''Q1''),
      (''metrics'', JObj [(''x'', JInt 1)])]"

definition roi_record :: pydict where
  "roi_record =
     [(''section'', JStr ''roi_annual''), (''period'', JStr ''FY''), (''metrics'', JObj [])]"

definition catalog_fs :: "string \<Rightarrow> data_file" where
  "catalog_fs path = Document (JArr [JObj roi_record, JObj overview_record])"

text \<open>A client that answers every request with the same text, and one that fails.\<close>

definition fixed_client :: "string \<Rightarrow> provider" where
  "fixed_client answer request = Content (Some answer)"

definition failing_client :: provider where
  "failing_client request = Raises"

text \<open>The configuration before the data is loaded.\<close>

definition config :: "string \<Rightarrow> provider option \<Rightarrow> globals" where
  "config default_section c =
     \<lparr>DEFAULT_SECTION = default_section, DEFAULT_GREETING = ''Hi'', OPENAI_MODEL = None,
      client = c, SECTIONS_BY_NAME = [], SECTION_KEYS = []\<rparr>"

definition scenario_globals :: "provider option \<Rightarrow> globals" where
  "scenario_globals c =
     (config ''overview_core'' c)
       \<lparr>SECTIONS_BY_NAME := [(''overview core'', scenario_record)],
        SECTION_KEYS := [''overview core'']\<rparr>"

definition catalog_globals :: "string \<Rightarrow> provider option \<Rightarrow> globals" where
  "catalog_globals default_section c =
     (config default_section c)
       \<lparr>SECTIONS_BY_NAME := [(''roi_annual'', roi_record), (''overview_core'', overview_record)],
        SECTION_KEYS := [''overview_core'', ''roi_annual'']\<rparr>"

text \<open>
  Data sources for the loader: one whose document is a list of numbers, one whose document
  is a single object, and an empty file system.
\<close>

definition numbers_fs :: "string \<Rightarrow> data_file" where
  "numbers_fs path = Document (JArr [JInt 1])"

definition scalar_fs :: "string \<Rightarrow> data_file" where
  "scalar_fs path = Document (JObj [(''section'', JStr ''roi_annual'')])"

definition empty_fs :: "string \<Rightarrow> data_file" where
  "empty_fs path = Absent"

text \<open>
  ``A sequence of objects'', in the words of the specification: a list whose elements are
  all dicts.
\<close>

fun list_of_objects :: "json \<Rightarrow> bool" where
  "list_of_objects (JArr xs) = list_all is_dict xs"
| "list_of_objects _ = False"

section \<open>Characters and stripping\<close>

lemma cp_char_of: "n < 256 \<Longrightarrow> code_point (char_of n) = n"
  by (simp add: code_point_def)

lemma cp_lower:
  "code_point (lower_char c) = (if is_upper c then code_point c + 32 else code_point c)"
  by (auto simp: lower_char_def is_upper_def cp_char_of Let_def)

lemma not_upper_lower: "\<not> is_upper (lower_char c)"
  by (auto simp: is_upper_def cp_lower Let_def)

lemma lower_char_idem: "lower_char (lower_char c) = lower_char c"
  using not_upper_lower [of c] by (simp add: lower_char_def [of "lower_char c"])

lemma isspace_lower: "py_isspace (lower_char c) = py_isspace c"
  by (auto simp: py_isspace_def cp_lower is_upper_def Let_def)

lemma cp_consts:
  "code_point (CHR ''_'') = 95" "code_point (CHR ''-'') = 45" "code_point (CHR '' '') = 32"
  by (simp_all add: code_point_def)

lemma lower_underscore: "lower_char (CHR ''_'') = CHR ''_''"
  by (simp add: lower_char_def is_upper_def cp_consts)

lemma underscore_not_space: "\<not> py_isspace (CHR ''_'')"
  by (simp add: py_isspace_def cp_consts)

text \<open>A string with no whitespace at either end is left alone by \<open>strip\<close>.\<close>

lemma strip_fixed:
  assumes "s = [] \<or> (\<not> py_isspace (hd s) \<and> \<not> py_isspace (last s))"
  shows "py_strip s = s"
proof (cases s)
  case Nil
  then show ?thesis by (simp add: py_strip_def)
next
  case (Cons a t)
  with assms have h: "\<not> py_isspace (hd s)" and l: "\<not> py_isspace (last s)" by auto
  from Cons h have "dropWhile py_isspace s = s" by simp
  moreover from Cons l have "dropWhile py_isspace (rev s) = rev s"
    by (simp only: dropWhile_eq_self_iff hd_rev) simp
  ultimately show ?thesis by (simp add: py_strip_def)
qed

text \<open>What \<open>strip\<close> returns has no whitespace at either end.\<close>

lemma strip_ends:
  "py_strip s = [] \<or> (\<not> py_isspace (hd (py_strip s)) \<and> \<not> py_isspace (last (py_strip s)))"
proof -
  let ?d = "dropWhile py_isspace s"
  let ?r = "dropWhile py_isspace (rev ?d)"
  show ?thesis
  proof (cases "?r = []")
    case True
    then show ?thesis by (simp add: py_strip_def)
  next
    case False
    then have l: "\<not> py_isspace (hd ?r)" by (simp add: hd_dropWhile)
    have dne: "?d \<noteq> []"
    proof
      assume e: "?d = []"
      have "?r = []" unfolding e by simp
      with False show False by blast
    qed
    then have hd_d: "\<not> py_isspace (hd ?d)" by (simp add: hd_dropWhile)
    have "last ?r = last (rev ?d)" using False
      by (metis append_Nil2 last_appendR takeWhile_dropWhile_id)
    then have "last ?r = hd ?d" using dne by (simp add: last_rev)
    with hd_d l False show ?thesis by (simp add: py_strip_def hd_rev last_rev)
  qed
qed

section \<open>The normalizer is idempotent\<close>

lemma normalize_key_map: "normalize_key raw = map norm_char (py_strip raw)"
  by (auto simp: normalize_key_def replace_char_def py_lower_def norm_char_def Let_def)

lemma norm_char_idem: "norm_char (norm_char c) = norm_char c"
  by (auto simp: norm_char_def Let_def lower_underscore lower_char_idem)

lemma norm_char_space: "\<not> py_isspace c \<Longrightarrow> \<not> py_isspace (norm_char c)"
  by (simp add: norm_char_def Let_def isspace_lower underscore_not_space)

lemma normalize_key_ends:
  "normalize_key x = [] \<or>
   (\<not> py_isspace (hd (normalize_key x)) \<and> \<not> py_isspace (last (normalize_key x)))"
  using strip_ends [of x]
  by (auto simp: normalize_key_map hd_map last_map norm_char_space)

lemma normalize_key_fixed: "normalize_key (normalize_key x) = normalize_key x"
proof -
  have "py_strip (normalize_key x) = normalize_key x"
    by (rule strip_fixed) (rule normalize_key_ends)
  then have "normalize_key (normalize_key x) = map norm_char (normalize_key x)"
    by (simp add: normalize_key_map [of "normalize_key x"])
  also have "\<dots> = normalize_key x"
    by (simp add: normalize_key_map [of x] norm_char_idem)
  finally show ?thesis .
qed

lemma eval_norm:
  "normalize_key ''Overview Core'' = ''overview_core''"
  "normalize_key ''overview core'' = ''overview_core''"
  "normalize_key ''overview_core'' = ''overview_core''"
  "normalize_key ''overview-core'' = ''overview_core''"
  "normalize_key ''Overview-Core'' = ''overview_core''"
  "normalize_key ''roi_annual'' = ''roi_annual''"
  "normalize_key ''bogus'' = ''bogus''"
  by code_simp+

text \<open>
  C4. \<open>normalize_key\<close> is a total function on strings, applying it twice gives what
  applying it once gives, and the three spellings \<^verbatim>\<open>"Overview Core"\<close>,
  \<^verbatim>\<open>"overview-core"\<close> and \<^verbatim>\<open>"overview_core"\<close> have the same key.
\<close>

theorem normalize_key_idempotent:
  "normalize_key (normalize_key x) = normalize_key x
   \<and> normalize_key ''Overview Core'' = normalize_key ''overview-core''
   \<and> normalize_key ''overview-core'' = normalize_key ''overview_core''"
  by (simp only: normalize_key_fixed eval_norm simp_thms)

section \<open>The index built at startup\<close>

lemma set_update_cases: "x \<in> set (AList.update k v al) \<Longrightarrow> x = (k, v) \<or> x \<in> set al"
  by (induction al) (auto split: if_splits)

lemma index_loop_indexed:
  "index_loop out xs = Inr idx \<Longrightarrow> list_all indexed out \<Longrightarrow> list_all indexed idx"
proof (induction xs arbitrary: out)
  case Nil
  then show ?case by simp
next
  case (Cons entry rest)
  show ?case
  proof (cases entry)
    case (JObj d)
    let ?name = "py_strip (py_str (dict_get d ''section'' (JStr [])))"
    show ?thesis
    proof (cases "?name = []")
      case True
      with Cons.prems JObj have "index_loop out rest = Inr idx" by simp
      with Cons.IH Cons.prems(2) show ?thesis by blast
    next
      case False
      with Cons.prems JObj have run: "index_loop (AList.update (py_lower ?name) d out) rest = Inr idx"
        by simp
      have "indexed (py_lower ?name, d)" using False by (simp add: indexed_def py_lower_def)
      with Cons.prems(2) have "list_all indexed (AList.update (py_lower ?name) d out)"
        by (auto simp: list_all_iff dest!: set_update_cases)
      with Cons.IH run show ?thesis by blast
    qed
  qed (use Cons.prems in simp_all)
qed

lemma index_by_section_indexed:
  "index_by_section secs = Inr idx \<Longrightarrow> list_all indexed idx"
  unfolding index_by_section_def using index_loop_indexed [of "[]" secs idx] by simp

lemma indexed_nonempty: "indexed (k, d) \<Longrightarrow> d \<noteq> []"
  by (auto simp: indexed_def dict_get_def py_str_def py_strip_def py_lower_def)

lemma startup_Inr:
  assumes "startup fs path g0 = Inr g"
  obtains raw idx where "load_sections fs path = Inr raw" "index_by_section raw = Inr idx"
    "g = g0\<lparr>SECTIONS_BY_NAME := idx, SECTION_KEYS := sort (map fst idx)\<rparr>"
  using assms by (auto simp: startup_def split: sum.splits)

lemma startup_state:
  assumes "startup fs path g0 = Inr g"
  shows "list_all indexed (SECTIONS_BY_NAME g)"
    and "SECTION_KEYS g = sort (map fst (SECTIONS_BY_NAME g))"
  using assms by (auto elim!: startup_Inr dest: index_by_section_indexed)

lemma format_payload_cases:
  assumes "list_all indexed (SECTIONS_BY_NAME g)"
  shows "format_payload g name =
     (case map_of (SECTIONS_BY_NAME g) (normalize_key name) of
        None \<Rightarrow> not_found_payload g name
      | Some d \<Rightarrow> found_payload d)"
proof (cases "map_of (SECTIONS_BY_NAME g) (normalize_key name)")
  case None
  then show ?thesis by (simp add: format_payload_def)
next
  case (Some d)
  then have "(normalize_key name, d) \<in> set (SECTIONS_BY_NAME g)" by (rule map_of_SomeD)
  with assms have "indexed (normalize_key name, d)" by (auto simp: list_all_iff)
  then have "d \<noteq> []" by (rule indexed_nonempty)
  with Some show ?thesis by (simp add: format_payload_def)
qed

lemma eval_sort: "sort [''roi_annual'', ''overview_core''] = [''overview_core'', ''roi_annual'']"
  by code_simp

lemma catalog_index:
  "index_by_section [JObj roi_record, JObj overview_record] =
     Inr [(''roi_annual'', roi_record), (''overview_core'', overview_record)]"
  by code_simp

lemma scenario_index:
  "index_by_section [JObj scenario_record] = Inr [(''overview core'', scenario_record)]"
  by code_simp

lemma catalog_startup: "startup catalog_fs path (config dflt c) = Inr (catalog_globals dflt c)"
  by (simp add: startup_def load_sections_def catalog_fs_def catalog_index catalog_globals_def
      eval_sort)

lemma scenario_startup: "startup scenario_fs path (config ''overview_core'' c) = Inr (scenario_globals c)"
  by (simp add: startup_def load_sections_def scenario_fs_def scenario_index scenario_globals_def)

lemma catalog_fields:
  "SECTIONS_BY_NAME (catalog_globals dflt c) =
     [(''roi_annual'', roi_record), (''overview_core'', overview_record)]"
  "SECTION_KEYS (catalog_globals dflt c) = [''overview_core'', ''roi_annual'']"
  "DEFAULT_SECTION (catalog_globals dflt c) = dflt"
  "DEFAULT_GREETING (catalog_globals dflt c) = ''Hi''"
  "client (catalog_globals dflt c) = c"
  by (simp_all add: catalog_globals_def config_def)

lemma scenario_fields:
  "SECTIONS_BY_NAME (scenario_globals c) = [(''overview core'', scenario_record)]"
  "SECTION_KEYS (scenario_globals c) = [''overview core'']"
  "client (scenario_globals c) = c"
  by (simp_all add: scenario_globals_def config_def)

section \<open>The payload formatter on a loaded index\<close>

text \<open>
  C6. Once the module has loaded its data, \<open>format_payload\<close> returns a payload for
  every input string. When the normalized input is a key of the index, the payload is
  \<open>ok: true\<close> with the \<open>section\<close>, \<open>period\<close> and \<open>metrics\<close> of the record stored
  under that key. When it is not, the payload is \<open>ok: false\<close> with the error text
  \<^verbatim>\<open>Section '<input>' not found.\<close> around the input as the caller gave it, and
  \<open>available_sections\<close> is the sorted list of all keys of the index.
\<close>

theorem format_payload_total:
  assumes "startup fs path g0 = Inr g"
  shows "(\<forall>d. map_of (SECTIONS_BY_NAME g) (normalize_key name) = Some d \<longrightarrow>
            format_payload g name =
              [(''ok'', JBool True),
               (''section'', dict_get d ''section'' JNull),
               (''period'', dict_get d ''period'' JNull),
               (''metrics'', dict_get d ''metrics'' (JObj []))])
       \<and> (normalize_key name \<notin> fst ` set (SECTIONS_BY_NAME g) \<longrightarrow>
            format_payload g name =
              [(''ok'', JBool False),
               (''error'', JStr (''Section '' @ [CHR 0x27] @ name @ [CHR 0x27] @ '' not found.'')),
               (''available_sections'', JArr (map JStr (sort (map fst (SECTIONS_BY_NAME g)))))])"
proof -
  note st = startup_state [OF assms]
  show ?thesis
    by (auto simp: format_payload_cases [OF st(1)] found_payload_def not_found_payload_def
        key_list_def st(2) map_of_eq_None_iff [symmetric] simp del: map_of_eq_None_iff)
qed

theorem format_payload_total_witness:
  "startup catalog_fs ''data.json'' (config ''overview_core'' None)
     = Inr (catalog_globals ''overview_core'' None)
   \<and> format_payload (catalog_globals ''overview_core'' None) ''Overview-Core'' =
       [(''ok'', JBool True), (''section'', JStr ''overview_core''), (''period'', JStr ''Q1''),
        (''metrics'', JObj [(''x'', JInt 1)])]
   \<and> format_payload (catalog_globals ''overview_core'' None) ''bogus'' =
       [(''ok'', JBool False), (''error'', JStr (''Section '' @ [CHR 0x27] @ ''bogus'' @ [CHR 0x27] @ '' not found.'')),
        (''available_sections'', JArr [JStr ''overview_core'', JStr ''roi_annual''])]"
proof -
  have st: "startup catalog_fs ''data.json'' (config ''overview_core'' None)
     = Inr (catalog_globals ''overview_core'' None)"
    by (rule catalog_startup)
  show ?thesis
    using st format_payload_total [OF st, of "''Overview-Core''"]
      format_payload_total [OF st, of "''bogus''"]
    by (simp add: catalog_fields eval_norm eval_sort dict_get_def overview_record_def)
qed

section \<open>The resolver stays inside the candidate list\<close>

text \<open>
  C5. For every query and every candidate list, \<open>choose_section_with_llm\<close> returns
  \<open>None\<close> when no client is configured, returns \<open>None\<close> when the provider call
  raises, and whenever it returns a key, that key is a member of the candidate list.
\<close>

theorem resolver_sound:
  "(client g = None \<longrightarrow> choose_section_with_llm g query ks = None)
   \<and> (\<forall>create. client g = Some create \<and> create (build_request g query ks) = Raises \<longrightarrow>
         choose_section_with_llm g query ks = None)
   \<and> (\<forall>k. choose_section_with_llm g query ks = Some k \<longrightarrow> k \<in> set ks)"
  by (auto simp: choose_section_with_llm_def Let_def split: option.splits completion.splits if_splits)

lemma eval_answer:
  "normalize_key (py_lower (py_strip '' ROI-Annual '')) = ''roi_annual''"
  "normalize_key (py_lower (py_strip ''roi_annual'')) = ''roi_annual''"
  "normalize_key (py_lower (py_strip ''overview_core'')) = ''overview_core''"
  by code_simp+

theorem resolver_sound_witness:
  "choose_section_with_llm (catalog_globals ''overview_core'' None) ''roi'' [''overview_core'', ''roi_annual''] = None
   \<and> choose_section_with_llm (catalog_globals ''overview_core'' (Some failing_client)) ''roi''
         [''overview_core'', ''roi_annual''] = None
   \<and> choose_section_with_llm (catalog_globals ''overview_core'' (Some (fixed_client '' ROI-Annual ''))) ''roi''
         [''overview_core'', ''roi_annual''] = Some ''roi_annual''
   \<and> ''roi_annual'' \<in> set [''overview_core'', ''roi_annual'']"
proof -
  let ?ks = "[''overview_core'', ''roi_annual'']"
  have a: "client (catalog_globals ''overview_core'' None) = None"
    by (simp add: catalog_fields)
  have b: "client (catalog_globals ''overview_core'' (Some failing_client)) = Some failing_client
    \<and> failing_client (build_request (catalog_globals ''overview_core'' (Some failing_client)) ''roi'' ?ks) = Raises"
    by (simp add: catalog_fields failing_client_def)
  have c: "choose_section_with_llm (catalog_globals ''overview_core'' (Some (fixed_client '' ROI-Annual ''))) ''roi'' ?ks
      = Some ''roi_annual''"
    by (simp add: choose_section_with_llm_def catalog_fields fixed_client_def eval_answer)
  show ?thesis
    using a b c
      resolver_sound [of "catalog_globals ''overview_core'' None" "''roi''" ?ks]
      resolver_sound [of "catalog_globals ''overview_core'' (Some failing_client)" "''roi''" ?ks]
      resolver_sound [of "catalog_globals ''overview_core'' (Some (fixed_client '' ROI-Annual ''))" "''roi''" ?ks]
    by blast
qed

section \<open>A resolved key is always served\<close>

lemma choose_Some:
  assumes "choose_section_with_llm g query ks = Some k"
  shows "k \<in> set ks" and "normalize_key k = k"
  using assms
  by (auto simp: choose_section_with_llm_def Let_def normalize_key_fixed
      split: option.splits completion.splits if_splits)

lemma key_payload_ok:
  assumes st: "startup fs path g0 = Inr g" and k: "k \<in> set (SECTION_KEYS g)" and fx: "normalize_key k = k"
  shows "k \<noteq> []" and "\<exists>d. format_payload g k = found_payload d"
proof -
  note s = startup_state [OF st]
  from k s(2) obtain d where d: "(k, d) \<in> set (SECTIONS_BY_NAME g)" by auto
  with s(1) have "indexed (k, d)" by (auto simp: list_all_iff)
  then show "k \<noteq> []" by (auto simp: indexed_def)
  from d have "map_of (SECTIONS_BY_NAME g) k \<noteq> None"
    by (simp add: map_of_eq_None_iff image_iff) force
  then obtain d' where "map_of (SECTIONS_BY_NAME g) k = Some d'" by auto
  then show "\<exists>d. format_payload g k = found_payload d"
    by (auto simp: format_payload_cases [OF s(1)] fx)
qed

lemma found_payload_ok: "payload_ok (found_payload d)"
  by (simp add: payload_ok_def found_payload_def dict_get_def)

lemma map_of_dict_merge:
  "map_of (dict_merge a b) x =
     (case map_of (rev b) x of None \<Rightarrow> map_of a x | Some v \<Rightarrow> Some v)"
  unfolding dict_merge_def
  by (induction b arbitrary: a)
    (auto simp: update_conv' map_add_def split: option.splits)

text \<open>
  C9. Once the module has loaded its data: a key returned by \<open>choose_section_with_llm\<close>
  for the candidate list \<open>SECTION_KEYS\<close> is a member of \<open>SECTION_KEYS\<close> and a fixed
  point of \<open>normalize_key\<close>, and \<open>format_payload\<close> of it is \<open>ok: true\<close>. A
  \<^verbatim>\<open>GET /metrics\<close> request without a \<open>section\<close> parameter never answers 404, and
  answers 200 with that payload when its query resolves. \<^verbatim>\<open>POST /ask\<close> never answers
  404, and answers 200 with \<open>ok: true\<close> when its question resolves.
\<close>

theorem resolved_key_served:
  assumes "startup fs path g0 = Inr g"
  shows "(\<forall>k. choose_section_with_llm g query (SECTION_KEYS g) = Some k \<longrightarrow>
            k \<in> set (SECTION_KEYS g) \<and> normalize_key k = k \<and> payload_ok (format_payload g k))
       \<and> (\<not> str_truthy section \<longrightarrow> snd (get_metrics_query g section q) \<noteq> 404)
       \<and> (\<forall>k. \<not> str_truthy section \<and> query \<noteq> [] \<and>
              choose_section_with_llm g query (SECTION_KEYS g) = Some k \<longrightarrow>
              get_metrics_query g section (Some query) = (format_payload g k, 200))
       \<and> (\<forall>r. ask_llm_router g body = Inr r \<longrightarrow> snd r \<noteq> 404)
       \<and> (\<forall>d k. py_strip (py_str (dict_get d ''q'' (JStr []))) = query \<and> query \<noteq> [] \<and>
              choose_section_with_llm g query (SECTION_KEYS g) = Some k \<longrightarrow>
              (\<exists>resp. ask_llm_router g (Some (JObj d)) = Inr (resp, 200) \<and>
                      map_of resp ''ok'' = Some (JBool True)))"
proof -
  have ok: "k \<in> set (SECTION_KEYS g) \<and> normalize_key k = k \<and> k \<noteq> [] \<and>
            (\<exists>d. format_payload g k = found_payload d)"
    if "choose_section_with_llm g qq (SECTION_KEYS g) = Some k" for k qq
    using choose_Some [OF that] key_payload_ok [OF assms] by blast
  have 1: "\<forall>k. choose_section_with_llm g query (SECTION_KEYS g) = Some k \<longrightarrow>
            k \<in> set (SECTION_KEYS g) \<and> normalize_key k = k \<and> payload_ok (format_payload g k)"
    using ok found_payload_ok by metis
  have 2: "\<not> str_truthy section \<longrightarrow> snd (get_metrics_query g section q) \<noteq> 404"
    by (simp add: get_metrics_query_def Let_def)
  have 3: "\<forall>k. \<not> str_truthy section \<and> query \<noteq> [] \<and>
              choose_section_with_llm g query (SECTION_KEYS g) = Some k \<longrightarrow>
              get_metrics_query g section (Some query) = (format_payload g k, 200)"
    using ok by (auto simp: get_metrics_query_def Let_def str_truthy_def str_value_def)
  have 4: "\<forall>r. ask_llm_router g body = Inr r \<longrightarrow> snd r \<noteq> 404"
    by (auto simp: ask_llm_router_def Let_def missing_q_response_def
        split: option.splits json.splits if_splits)
  have 5: "\<exists>resp. ask_llm_router g (Some (JObj d)) = Inr (resp, 200) \<and>
                      map_of resp ''ok'' = Some (JBool True)"
    if q: "py_strip (py_str (dict_get d ''q'' (JStr []))) = query" "query \<noteq> []"
      and c: "choose_section_with_llm g query (SECTION_KEYS g) = Some k" for d k
  proof -
    from q have dne: "d \<noteq> []"
      by (auto simp: dict_get_def py_str_def py_strip_def)
    from ok [OF c] obtain e where k: "k \<noteq> []" and e: "format_payload g k = found_payload e"
      by blast
    show ?thesis
      using q c k dne
      by (simp add: ask_llm_router_def Let_def str_truthy_def str_value_def e
          map_of_dict_merge found_payload_def)
  qed
  from 1 2 3 4 5 show ?thesis by blast
qed

lemma catalog_choose:
  "choose_section_with_llm (catalog_globals dflt (Some (fixed_client ''roi_annual''))) query
     [''overview_core'', ''roi_annual''] = Some ''roi_annual''"
  by (simp add: choose_section_with_llm_def catalog_fields fixed_client_def eval_answer)

lemma eval_q: "py_strip ''roi'' = ''roi''"
  by code_simp

theorem resolved_key_served_witness:
  "startup catalog_fs ''data.json'' (config ''overview_core'' (Some (fixed_client ''roi_annual'')))
     = Inr (catalog_globals ''overview_core'' (Some (fixed_client ''roi_annual'')))
   \<and> choose_section_with_llm (catalog_globals ''overview_core'' (Some (fixed_client ''roi_annual''))) ''roi''
       (SECTION_KEYS (catalog_globals ''overview_core'' (Some (fixed_client ''roi_annual'')))) = Some ''roi_annual''
   \<and> payload_ok (format_payload (catalog_globals ''overview_core'' (Some (fixed_client ''roi_annual''))) ''roi_annual'')
   \<and> get_metrics_query (catalog_globals ''overview_core'' (Some (fixed_client ''roi_annual''))) None (Some ''roi'')
       = (format_payload (catalog_globals ''overview_core'' (Some (fixed_client ''roi_annual''))) ''roi_annual'', 200)
   \<and> snd (get_metrics_query (catalog_globals ''overview_core'' (Some (fixed_client ''roi_annual''))) None (Some ''roi'')) \<noteq> 404
   \<and> (\<exists>resp. ask_llm_router (catalog_globals ''overview_core'' (Some (fixed_client ''roi_annual'')))
                (Some (JObj [(''q'', JStr ''roi'')])) = Inr (resp, 200)
              \<and> map_of resp ''ok'' = Some (JBool True))"
proof -
  let ?g = "catalog_globals ''overview_core'' (Some (fixed_client ''roi_annual''))"
  have st: "startup catalog_fs ''data.json'' (config ''overview_core'' (Some (fixed_client ''roi_annual''))) = Inr ?g"
    by (rule catalog_startup)
  have c: "choose_section_with_llm ?g ''roi'' (SECTION_KEYS ?g) = Some ''roi_annual''"
    by (simp add: catalog_fields(2) catalog_choose)
  have n: "\<not> str_truthy None" "''roi'' \<noteq> []"
    by (simp_all add: str_truthy_def)
  have q: "py_strip (py_str (dict_get [(''q'', JStr ''roi'')] ''q'' (JStr []))) = ''roi''"
    by (simp add: dict_get_def py_str_def eval_q)
  from resolved_key_served [OF st, of "''roi''" None "Some ''roi''" "Some (JObj [(''q'', JStr ''roi'')])"]
    c n q
  show ?thesis using st by blast
qed

section \<open>Bodies of \<^verbatim>\<open>POST /ask\<close> that are not objects\<close>

text \<open>
  C10. A \<^verbatim>\<open>POST /ask\<close> body that parses to a truthy value other than an object makes
  the handler raise \<open>AttributeError\<close> (\<^verbatim>\<open>data.get\<close> on a value that is not a
  \<open>dict\<close>) instead of returning a response. A falsy body, or no JSON body at all, gets
  the 400 response \<^verbatim>\<open>Missing 'q' in JSON body.\<close>; an object body always gets a
  response; and only falsy values and objects get one.
\<close>

theorem ask_needs_object_body:
  "(truthy b \<and> \<not> is_dict b \<longrightarrow> ask_llm_router g (Some b) = Inl AttributeError)
   \<and> (\<not> truthy b \<longrightarrow>
        ask_llm_router g (Some b) =
          Inr ([(''ok'', JBool False),
                (''error'', JStr (''Missing '' @ [CHR 0x27] @ ''q'' @ [CHR 0x27] @ '' in JSON body.''))], 400))
   \<and> ask_llm_router g None =
        Inr ([(''ok'', JBool False),
              (''error'', JStr (''Missing '' @ [CHR 0x27] @ ''q'' @ [CHR 0x27] @ '' in JSON body.''))], 400)
   \<and> (is_dict b \<longrightarrow> (\<exists>r. ask_llm_router g (Some b) = Inr r))
   \<and> ((\<exists>r. ask_llm_router g (Some b) = Inr r) \<longrightarrow> \<not> truthy b \<or> is_dict b)"
proof -
  have blank: "py_strip (py_str (dict_get [] ''q'' (JStr []))) = []"
    by (simp add: dict_get_def py_str_def py_strip_def)
  have 1: "truthy b \<and> \<not> is_dict b \<longrightarrow> ask_llm_router g (Some b) = Inl AttributeError"
    by (cases b) (simp_all add: ask_llm_router_def)
  have 2: "\<not> truthy b \<longrightarrow> ask_llm_router g (Some b) = Inr missing_q_response"
    by (simp add: ask_llm_router_def blank)
  have 3: "ask_llm_router g None = Inr missing_q_response"
    by (simp add: ask_llm_router_def blank)
  have 4: "is_dict b \<longrightarrow> (\<exists>r. ask_llm_router g (Some b) = Inr r)"
    by (cases b) (auto simp: ask_llm_router_def Let_def blank)
  from 1 have 5: "(\<exists>r. ask_llm_router g (Some b) = Inr r) \<longrightarrow> \<not> truthy b \<or> is_dict b"
    by auto
  from 1 2 3 4 5 show ?thesis unfolding missing_q_response_def by blast
qed

theorem ask_needs_object_body_witness:
  "ask_llm_router (catalog_globals ''overview_core'' None) (Some (JArr [JInt 1])) = Inl AttributeError
   \<and> ask_llm_router (catalog_globals ''overview_core'' None) (Some (JStr ''roi'')) = Inl AttributeError
   \<and> ask_llm_router (catalog_globals ''overview_core'' None) (Some (JArr [])) =
        Inr ([(''ok'', JBool False),
              (''error'', JStr (''Missing '' @ [CHR 0x27] @ ''q'' @ [CHR 0x27] @ '' in JSON body.''))], 400)
   \<and> (\<exists>r. ask_llm_router (catalog_globals ''overview_core'' None) (Some (JObj [(''q'', JStr [])])) = Inr r)"
proof -
  let ?g = "catalog_globals ''overview_core'' None"
  have a: "truthy (JArr [JInt 1]) \<and> \<not> is_dict (JArr [JInt 1])"
    and b: "truthy (JStr ''roi'') \<and> \<not> is_dict (JStr ''roi'')"
    and c: "\<not> truthy (JArr [])"
    and d: "is_dict (JObj [(''q'', JStr [])])"
    by simp_all
  from a b c d
    ask_needs_object_body [of "JArr [JInt 1]" ?g]
    ask_needs_object_body [of "JStr ''roi''" ?g]
    ask_needs_object_body [of "JArr []" ?g]
    ask_needs_object_body [of "JObj [(''q'', JStr [])]" ?g]
  show ?thesis by blast
qed

section \<open>What the loader checks\<close>

text \<open>
  The loader accepts a document that is a list of numbers, although that is not a
  sequence of objects; it is the indexing after it that fails, with an
  \<open>AttributeError\<close>.
\<close>

theorem load_sections_accepts_any_list:
  "numbers_fs ''data.json'' = Document (JArr [JInt 1])
   \<and> \<not> list_of_objects (JArr [JInt 1])
   \<and> load_sections numbers_fs ''data.json'' = Inr [JInt 1]
   \<and> index_by_section [JInt 1] = Inl AttributeError"
  by (simp add: numbers_fs_def load_sections_def index_by_section_def)

text \<open>
  C7, as the code has it. \<open>load_sections\<close> fails with \<open>FileNotFoundError\<close> when
  nothing is at the path, fails with \<open>ValueError\<close> when the parsed document is not a
  list, and returns the parsed list otherwise, whatever its elements are.
\<close>

theorem load_sections_cases:
  "(fs path = Absent \<longrightarrow>
      load_sections fs path = Inl (FileNotFoundError (''DATA_PATH not found: '' @ path)))
   \<and> (\<forall>data. fs path = Document data \<and> (\<forall>xs. data \<noteq> JArr xs) \<longrightarrow>
         load_sections fs path = Inl (ValueError ''Top-level JSON must be a list of section objects.''))
   \<and> (\<forall>xs. fs path = Document (JArr xs) \<longrightarrow> load_sections fs path = Inr xs)"
  by (auto simp: load_sections_def split: json.splits)

theorem load_sections_cases_witness:
  "load_sections empty_fs ''data.json'' = Inl (FileNotFoundError ''DATA_PATH not found: data.json'')
   \<and> load_sections scalar_fs ''data.json'' =
       Inl (ValueError ''Top-level JSON must be a list of section objects.'')
   \<and> load_sections catalog_fs ''data.json'' = Inr [JObj roi_record, JObj overview_record]"
proof -
  have a: "empty_fs ''data.json'' = Absent" by (simp add: empty_fs_def)
  have b: "scalar_fs ''data.json'' = Document (JObj [(''section'', JStr ''roi_annual'')])
           \<and> (\<forall>xs. JObj [(''section'', JStr ''roi_annual'')] \<noteq> JArr xs)"
    by (simp add: scalar_fs_def)
  have c: "catalog_fs ''data.json'' = Document (JArr [JObj roi_record, JObj overview_record])"
    by (simp add: catalog_fs_def)
  from a b c load_sections_cases [of empty_fs "''data.json''"]
    load_sections_cases [of scalar_fs "''data.json''"]
    load_sections_cases [of catalog_fs "''data.json''"]
  show ?thesis by simp
qed

section \<open>When \<^verbatim>\<open>POST /ask\<close> adds the greeting\<close>

lemma catalog_format_roi:
  "format_payload (catalog_globals dflt c) ''roi_annual'' =
     [(''ok'', JBool True), (''section'', JStr ''roi_annual''), (''period'', JStr ''FY''),
      (''metrics'', JObj [])]"
  by (simp add: format_payload_def catalog_fields eval_norm found_payload_def roi_record_def
      dict_get_def)

text \<open>
  With \<open>DEFAULT_SECTION\<close> configured as \<^verbatim>\<open>roi_annual\<close> and a question that resolves
  to \<^verbatim>\<open>roi_annual\<close>, the 200 response carries no \<open>message\<close>.
\<close>

theorem ask_greeting_ignores_default_section:
  "startup catalog_fs ''data.json'' (config ''roi_annual'' (Some (fixed_client ''roi_annual'')))
     = Inr (catalog_globals ''roi_annual'' (Some (fixed_client ''roi_annual'')))
   \<and> choose_section_with_llm (catalog_globals ''roi_annual'' (Some (fixed_client ''roi_annual''))) ''roi''
       (SECTION_KEYS (catalog_globals ''roi_annual'' (Some (fixed_client ''roi_annual''))))
       = Some (DEFAULT_SECTION (catalog_globals ''roi_annual'' (Some (fixed_client ''roi_annual''))))
   \<and> ask_llm_router (catalog_globals ''roi_annual'' (Some (fixed_client ''roi_annual'')))
       (Some (JObj [(''q'', JStr ''roi'')]))
       = Inr ([(''ok'', JBool True), (''section'', JStr ''roi_annual''), (''period'', JStr ''FY''),
               (''metrics'', JObj [])], 200)"
  by (simp add: catalog_startup catalog_fields catalog_choose ask_llm_router_def dict_get_def
      py_str_def eval_q str_truthy_def str_value_def catalog_format_roi dict_merge_def)

text \<open>
  C8, as the code has it. For a \<^verbatim>\<open>POST /ask\<close> request whose object body has a
  non-blank \<open>q\<close> that resolves to the key \<open>k\<close>, the answer is a 200 response, and it
  has the \<open>message\<close> field, holding \<open>DEFAULT_GREETING\<close>, exactly when \<open>k\<close> is the
  literal key \<^verbatim>\<open>overview_core\<close> and \<open>DEFAULT_GREETING\<close> is not empty.
\<close>

theorem ask_greeting_for_overview:
  assumes "py_strip (py_str (dict_get d ''q'' (JStr []))) = query" and "query \<noteq> []"
    and "choose_section_with_llm g query (SECTION_KEYS g) = Some k" and "k \<noteq> []"
  shows "\<exists>resp. ask_llm_router g (Some (JObj d)) = Inr (resp, 200)
           \<and> map_of resp ''message'' =
               (if k = ''overview_core'' \<and> DEFAULT_GREETING g \<noteq> []
                then Some (JStr (DEFAULT_GREETING g)) else None)"
proof -
  from assms(1,2) have dne: "d \<noteq> []"
    by (auto simp: dict_get_def py_str_def py_strip_def)
  have nomsg: "map_of (rev (format_payload g k)) ''message'' = None"
    by (simp add: format_payload_def found_payload_def not_found_payload_def Let_def
        split: option.splits)
  show ?thesis
    using assms dne
    by (simp add: ask_llm_router_def Let_def str_truthy_def str_value_def map_of_dict_merge nomsg)
qed

theorem ask_greeting_for_overview_witness:
  "(\<exists>resp. ask_llm_router (catalog_globals ''roi_annual'' (Some (fixed_client ''overview_core'')))
       (Some (JObj [(''q'', JStr ''roi'')])) = Inr (resp, 200)
      \<and> map_of resp ''message'' = Some (JStr ''Hi''))
   \<and> (\<exists>resp. ask_llm_router (catalog_globals ''roi_annual'' (Some (fixed_client ''roi_annual'')))
       (Some (JObj [(''q'', JStr ''roi'')])) = Inr (resp, 200)
      \<and> map_of resp ''message'' = None)"
proof -
  let ?d = "[(''q'', JStr ''roi'')]"
  let ?g1 = "catalog_globals ''roi_annual'' (Some (fixed_client ''overview_core''))"
  let ?g2 = "catalog_globals ''roi_annual'' (Some (fixed_client ''roi_annual''))"
  have q: "py_strip (py_str (dict_get ?d ''q'' (JStr []))) = ''roi''" "''roi'' \<noteq> []"
    by (simp_all add: dict_get_def py_str_def eval_q)
  have c1: "choose_section_with_llm ?g1 ''roi'' (SECTION_KEYS ?g1) = Some ''overview_core''"
    by (simp add: choose_section_with_llm_def catalog_fields fixed_client_def eval_answer)
  have c2: "choose_section_with_llm ?g2 ''roi'' (SECTION_KEYS ?g2) = Some ''roi_annual''"
    by (simp add: catalog_fields(2) catalog_choose)
  have k: "''overview_core'' \<noteq> []" "''roi_annual'' \<noteq> []" by simp_all
  from ask_greeting_for_overview [OF q c1 k(1)] ask_greeting_for_overview [OF q c2 k(2)]
  show ?thesis by (simp add: catalog_fields)
qed

section \<open>A record whose name has a space\<close>

text \<open>
  C3. The record named \<^verbatim>\<open>Overview Core\<close> is stored under the key
  \<^verbatim>\<open>overview core\<close>, with the space kept: the index strips and lowercases the name,
  and does not replace separators as \<open>normalize_key\<close> does.
\<close>

theorem index_key_keeps_separators:
  "index_by_section [JObj scenario_record] = Inr [(''overview core'', scenario_record)]
   \<and> dict_get scenario_record ''section'' JNull = JStr ''Overview Core''
   \<and> normalize_key ''Overview Core'' = ''overview_core''"
  by (simp add: scenario_index eval_norm) (simp add: scenario_record_def dict_get_def)

lemma normalize_key_no_space: "CHR '' '' \<notin> set (normalize_key x)"
  by (auto simp: normalize_key_def replace_char_def)

lemma scenario_key_missed: "normalize_key name \<noteq> ''overview core''"
proof
  assume "normalize_key name = ''overview core''"
  then have "CHR '' '' \<in> set (normalize_key name)" by simp
  with normalize_key_no_space show False by blast
qed

text \<open>
  C1. After loading that record, \<^verbatim>\<open>overview core\<close> is a key of the index, and
  \<open>format_payload\<close> of it is \<open>ok: false\<close>: the lookup normalizes the name to
  \<^verbatim>\<open>overview_core\<close>, which is not a key. No input at all gets an \<open>ok: true\<close> payload.
\<close>

theorem index_key_not_reachable:
  "startup scenario_fs ''data.json'' (config ''overview_core'' None) = Inr (scenario_globals None)
   \<and> ''overview core'' \<in> fst ` set (SECTIONS_BY_NAME (scenario_globals None))
   \<and> format_payload (scenario_globals None) ''overview core'' =
       [(''ok'', JBool False),
        (''error'', JStr (''Section '' @ [CHR 0x27] @ ''overview core'' @ [CHR 0x27] @ '' not found.'')),
        (''available_sections'', JArr [JStr ''overview core''])]
   \<and> (\<forall>name. \<not> payload_ok (format_payload (scenario_globals None) name))"
  by (simp add: scenario_startup scenario_fields format_payload_def eval_norm not_found_payload_def
      key_list_def scenario_key_missed payload_ok_def dict_get_def)

text \<open>
  C2. With that record as the only one, \<^verbatim>\<open>GET /metrics?section=overview_core\<close>
  answers 404, and the 404 for \<^verbatim>\<open>section=bogus\<close> lists \<^verbatim>\<open>overview core\<close> as the
  available section.
\<close>

theorem scenario_lookup_not_found:
  "startup scenario_fs ''data.json'' (config ''overview_core'' None) = Inr (scenario_globals None)
   \<and> get_metrics_query (scenario_globals None) (Some ''overview_core'') None =
       ([(''ok'', JBool False),
         (''error'', JStr (''Section '' @ [CHR 0x27] @ ''overview_core'' @ [CHR 0x27] @ '' not found.'')),
         (''available_sections'', JArr [JStr ''overview core''])], 404)
   \<and> get_metrics_query (scenario_globals None) (Some ''bogus'') None =
       ([(''ok'', JBool False),
         (''error'', JStr (''Section '' @ [CHR 0x27] @ ''bogus'' @ [CHR 0x27] @ '' not found.'')),
         (''available_sections'', JArr [JStr ''overview core''])], 404)"
  by (simp add: scenario_startup scenario_fields get_metrics_query_def str_truthy_def str_value_def
      format_payload_def eval_norm not_found_payload_def key_list_def payload_ok_def dict_get_def)

end
